theory Spec2Isabelle
  imports Main "HOL-Library.Word"
begin

unbundle bit_operations_syntax

section \<open>Data model of p2p.go\<close>

type_synonym byte = "8 word"

text \<open>
  \<open>net.IP\<close> and \<open>net.HardwareAddr\<close> are byte slices; \<open>None\<close> is the nil slice.
\<close>

type_synonym IP = "byte list option"
type_synonym HardwareAddr = "byte list option"

text \<open>
  A non-nil \<open>*net.UDPAddr\<close> is represented by the text its \<open>String\<close> method prints
  (\<open>ip:port\<close>); \<open>None\<close> is the nil pointer, which \<open>String\<close> prints as \<open><nil>\<close>.
\<close>

type_synonym UDPAddr = string

definition UDPAddr_String :: "UDPAddr option \<Rightarrow> string" where
  "UDPAddr_String a = (case a of None \<Rightarrow> ''<nil>'' | Some t \<Rightarrow> t)"

text \<open>Runtime panics of the Go program.\<close>

datatype error = IndexOutOfRange | SliceBoundsOutOfRange | NilDereference

text \<open>
  Modelled from the spec: \<open>type MSG_TYPE uint16\<close> with the message types INTRO, TEST
  and plain data. The numeric values of the constants are in package \<open>commons\<close>,
  which is not part of the source at hand; as labels of the cases of one switch they
  are distinct, and \<open>MT_other\<close> stands for every other value.
\<close>

datatype MSG_TYPE = MT_INTRO | MT_TEST | MT_NENC | MT_other nat

text \<open>
  Modelled from the spec: the message of package \<open>udpcs\<close>, a header with the message
  type and a second word that p2p.go always sets to 0, and the payload.
\<close>

record P2PMessage =
  Header_Type :: MSG_TYPE
  Header_NetProto :: int
  Data :: string

record NetworkPeer =
  ID :: string
  Unknown :: bool
  Handshaked :: bool
  CleanAddr :: string
  ProxyID :: int
  Forwarder :: "UDPAddr option"
  PeerAddr :: "UDPAddr option"
  PeerLocalIP :: IP
  PeerHW :: HardwareAddr
  Endpoint :: string
  KnownIPs :: "UDPAddr option list"

text \<open>The zero value of the struct (\<open>var newPeer NetworkPeer\<close>).\<close>

definition NetworkPeer_zero :: NetworkPeer where
  "NetworkPeer_zero = \<lparr>ID = [], Unknown = False, Handshaked = False, CleanAddr = [],
     ProxyID = 0, Forwarder = None, PeerAddr = None, PeerLocalIP = None, PeerHW = None,
     Endpoint = [], KnownIPs = []\<rparr>"

text \<open>An entry of \<open>ptp.dht.Peers\<close>: a peer id and the address strings reported for it.\<close>

record DHTPeer =
  dht_peer_ID :: string
  Ips :: "string list"

text \<open>
  \<open>PTPCloud\<close>, with the fields the registry operations read or write. \<open>dht_ID\<close> and
  \<open>dht_Peers\<close> are \<open>ptp.dht.ID\<close> and \<open>ptp.dht.Peers\<close>. The effects on the outside
  world are kept as logs: \<open>sendlog\<close> holds every call of \<open>ptp.UDPSocket.SendMessage\<close>
  (the datagram and its destination), \<open>requested\<close> every call of
  \<open>ptp.dht.RequestPeerIPs\<close>, \<open>written\<close> every packet given to the TAP device.
\<close>

record PTPCloud =
  IP :: string
  Mac :: string
  DeviceName :: string
  Device :: bool
  NetworkPeers :: "NetworkPeer list"
  dht_ID :: string
  dht_Peers :: "DHTPeer list"
  sendlog :: "(P2PMessage \<times> UDPAddr option) list"
  requested :: "string list"
  written :: "(nat \<times> string) list"

section \<open>The outside world\<close>

datatype read_event = ReadError | ReadBytes int

datatype probe_trace = DialError | WriteError | Reads "read_event list"

type_synonym IPNet = string

record Interface =
  Name :: string
  Addrs :: "IPNet option list"

text \<open>
  What p2p.go asks of the operating system, the network and package \<open>udpcs\<close>:
  \<^item> \<open>ResolveUDPAddr\<close>: \<open>net.ResolveUDPAddr("udp", s)\<close>, \<open>None\<close> on error;
  \<^item> \<open>Interfaces\<close>: \<open>net.Interfaces()\<close>, \<open>None\<close> on error; each interface with the
    networks \<open>net.ParseCIDR\<close> gives for its addresses (\<open>None\<close> where it fails);
  \<^item> \<open>Contains\<close>: \<open>network.Contains(kip.IP)\<close>;
  \<^item> \<open>Probe\<close>: what happens on the connected socket that \<open>TestConnection\<close> opens to an
    endpoint: the dial fails, the write fails, or the reads that arrive before the
    3 second deadline (after them \<open>ReadFromUDP\<close> returns the deadline error);
  \<^item> \<open>P2PMessageFromBytes\<close>: the decoder of \<open>udpcs\<close>, \<open>None\<close> on error;
  \<^item> \<open>Transport\<close>: the size and error that \<open>UDPSocket.SendMessage\<close> returns.
\<close>

record Env =
  ResolveUDPAddr :: "string \<Rightarrow> UDPAddr option"
  Interfaces :: "Interface list option"
  Contains :: "IPNet \<Rightarrow> UDPAddr \<Rightarrow> bool"
  Probe :: "UDPAddr option \<Rightarrow> probe_trace"
  P2PMessageFromBytes :: "string \<Rightarrow> P2PMessage option"
  Transport :: "P2PMessage \<Rightarrow> UDPAddr option \<Rightarrow> int \<times> string option"

text \<open>
  Modelled from the spec: package \<open>udpcs\<close> is not part of the source at hand. The
  datagram endpoint's \<open>send(message, address)\<close> serializes and transmits in one datagram,
  returning bytes sent or a transport error.
\<close>

definition SendMessage ::
  "Env \<Rightarrow> PTPCloud \<Rightarrow> P2PMessage \<Rightarrow> UDPAddr option \<Rightarrow> (int \<times> string option) \<times> PTPCloud" where
  "SendMessage env ptp msg addr =
     (Transport env msg addr, ptp\<lparr>sendlog := sendlog ptp @ [(msg, addr)]\<rparr>)"

section \<open>Hardware addresses as text\<close>

definition hexDigit :: string where
  "hexDigit = ''0123456789abcdef''"

text \<open>The loop of \<open>HardwareAddr.String\<close>; \<open>i\<close> is the index of the byte.\<close>

fun HardwareAddr_String_loop :: "nat \<Rightarrow> byte list \<Rightarrow> string" where
  "HardwareAddr_String_loop i [] = []"
| "HardwareAddr_String_loop i (b # bs) =
     (if i > 0 then [CHR '':''] else [])
     @ [hexDigit ! unat (drop_bit 4 b), hexDigit ! unat (b AND 0xF)]
     @ HardwareAddr_String_loop (Suc i) bs"

definition HardwareAddr_String :: "HardwareAddr \<Rightarrow> string" where
  "HardwareAddr_String a =
     (case a of None \<Rightarrow> [] | Some bs \<Rightarrow> if length bs = 0 then [] else HardwareAddr_String_loop 0 bs)"

text \<open>The bytes of a hardware address; the nil slice has none.\<close>

definition HardwareAddr_bytes :: "HardwareAddr \<Rightarrow> byte list" where
  "HardwareAddr_bytes a = (case a of None \<Rightarrow> [] | Some bs \<Rightarrow> bs)"

section \<open>SendTo\<close>

fun SendTo_loop ::
  "Env \<Rightarrow> PTPCloud \<Rightarrow> NetworkPeer list \<Rightarrow> HardwareAddr \<Rightarrow> P2PMessage
    \<Rightarrow> (int \<times> string option) \<times> PTPCloud" where
  "SendTo_loop env ptp [] dst msg = ((0, None), ptp)"
| "SendTo_loop env ptp (peer # peers) dst msg =
     (if HardwareAddr_String (PeerHW peer) = HardwareAddr_String dst
      then SendMessage env ptp msg (PeerAddr peer)
      else SendTo_loop env ptp peers dst msg)"

definition SendTo ::
  "Env \<Rightarrow> PTPCloud \<Rightarrow> HardwareAddr \<Rightarrow> P2PMessage \<Rightarrow> (int \<times> string option) \<times> PTPCloud" where
  "SendTo env ptp dst msg = SendTo_loop env ptp (NetworkPeers ptp) dst msg"

section \<open>Text parsing of package net\<close>

text \<open>
  The parsers of Go's standard library that p2p.go calls, transcribed from package
  \<open>net\<close> (parse.go, ip.go, mac.go), with the two checks that current releases of Go
  make on IP addresses and older ones did not: an IPv4 octet of more than one digit that
  begins with 0 is refused, and so is an IPv6 group of more than four hex digits.
  A Go string is a sequence of bytes, here a list of 8-bit characters; \<open>s[k:]\<close> is
  \<open>drop k s\<close>.
\<close>

definition big :: nat where
  "big = 0xFFFFFF"

definition is_digit :: "char \<Rightarrow> bool" where
  "is_digit c \<longleftrightarrow> (of_char CHR ''0'' :: nat) \<le> of_char c \<and> (of_char c :: nat) \<le> of_char CHR ''9''"

definition is_lower_hex :: "char \<Rightarrow> bool" where
  "is_lower_hex c \<longleftrightarrow> (of_char CHR ''a'' :: nat) \<le> of_char c \<and> (of_char c :: nat) \<le> of_char CHR ''f''"

definition is_upper_hex :: "char \<Rightarrow> bool" where
  "is_upper_hex c \<longleftrightarrow> (of_char CHR ''A'' :: nat) \<le> of_char c \<and> (of_char c :: nat) \<le> of_char CHR ''F''"

text \<open>
  \<open>dtoi\<close>: decimal to integer. The loop returns the number, the characters consumed
  and whether it stopped on overflow.
\<close>

fun dtoi_loop :: "string \<Rightarrow> nat \<Rightarrow> nat \<Rightarrow> nat \<times> nat \<times> bool" where
  "dtoi_loop [] n i = (n, i, False)"
| "dtoi_loop (c # cs) n i =
     (if is_digit c
      then (let n' = n * 10 + (of_char c - of_char CHR ''0'')
            in if n' \<ge> big then (0, i, True) else dtoi_loop cs n' (Suc i))
      else (n, i, False))"

definition dtoi :: "string \<Rightarrow> nat \<times> nat \<times> bool" where
  "dtoi s = (case dtoi_loop s 0 0 of (n, i, overflow) \<Rightarrow>
     if overflow then (0, i, False) else if i = 0 then (0, i, False) else (n, i, True))"

text \<open>\<open>xtoi\<close>: hexadecimal to integer; number, characters consumed, success.\<close>

fun xtoi_loop :: "string \<Rightarrow> nat \<Rightarrow> nat \<Rightarrow> nat \<times> nat \<times> bool" where
  "xtoi_loop [] n i = (n, i, False)"
| "xtoi_loop (c # cs) n i =
     (if is_digit c
      then (let n' = n * 16 + (of_char c - of_char CHR ''0'')
            in if n' \<ge> big then (0, i, True) else xtoi_loop cs n' (Suc i))
      else if is_lower_hex c
      then (let n' = n * 16 + (of_char c - of_char CHR ''a'') + 10
            in if n' \<ge> big then (0, i, True) else xtoi_loop cs n' (Suc i))
      else if is_upper_hex c
      then (let n' = n * 16 + (of_char c - of_char CHR ''A'') + 10
            in if n' \<ge> big then (0, i, True) else xtoi_loop cs n' (Suc i))
      else (n, i, False))"

definition xtoi :: "string \<Rightarrow> nat \<times> nat \<times> bool" where
  "xtoi s = (case xtoi_loop s 0 0 of (n, i, overflow) \<Rightarrow>
     if overflow then (0, i, False) else if i = 0 then (0, i, False) else (n, i, True))"

text \<open>
  \<open>xtoi2\<close>: the next two hex digits of \<open>s\<close> as a byte; if \<open>s\<close> is longer than two
  bytes the third must be \<open>e\<close>. Every call in \<open>ParseMAC\<close> passes at least two bytes,
  so \<open>s[:2]\<close> is in range there.
\<close>

definition xtoi2 :: "string \<Rightarrow> char \<Rightarrow> byte \<times> bool" where
  "xtoi2 s e =
     (if length s > 2 \<and> s ! 2 \<noteq> e then (0, False)
      else case xtoi (take 2 s) of (n, ei, ok) \<Rightarrow> (of_nat n, ok \<and> ei = 2))"

text \<open>
  \<open>ParseMAC\<close>: the colon or hyphen form (\<open>for x, i := 0, 0; i < n; i++\<close>, with
  \<open>x = 3 * i\<close>) and the dot form (\<open>i += 2\<close>, with \<open>x = 5 * (i / 2)\<close>). \<open>None\<close> is the
  error return. The first test of mac.go refuses every text of fewer than 14 bytes, the
  length of the shortest form with separators. The statements below evaluate
  \<open>ParseMAC\<close> on texts in the colon form and on one text that is no address in any
  notation; none of them rests on what it returns for hex digits without separators.
\<close>

fun ParseMAC_colon :: "string \<Rightarrow> nat list \<Rightarrow> byte list option" where
  "ParseMAC_colon s [] = Some []"
| "ParseMAC_colon s (i # is) =
     (case xtoi2 (drop (3 * i) s) (s ! 2) of (b, ok) \<Rightarrow>
        if \<not> ok then None
        else (case ParseMAC_colon s is of None \<Rightarrow> None | Some hw \<Rightarrow> Some (b # hw)))"

fun ParseMAC_dot :: "string \<Rightarrow> nat list \<Rightarrow> byte list option" where
  "ParseMAC_dot s [] = Some []"
| "ParseMAC_dot s (k # ks) =
     (case xtoi2 (take 2 (drop (5 * k) s)) (CHR 0x00) of (b0, ok0) \<Rightarrow>
        if \<not> ok0 then None
        else (case xtoi2 (drop (5 * k + 2) s) (s ! 4) of (b1, ok1) \<Rightarrow>
          if \<not> ok1 then None
          else (case ParseMAC_dot s ks of None \<Rightarrow> None | Some hw \<Rightarrow> Some (b0 # b1 # hw))))"

definition ParseMAC :: "string \<Rightarrow> HardwareAddr" where
  "ParseMAC s =
     (if length s < 14 then None
      else if s ! 2 = CHR '':'' \<or> s ! 2 = CHR ''-'' then
        (if (length s + 1) mod 3 \<noteq> 0 then None
         else (let n = (length s + 1) div 3
               in if n \<noteq> 6 \<and> n \<noteq> 8 \<and> n \<noteq> 20 then None else ParseMAC_colon s [0..<n]))
      else if s ! 4 = CHR ''.'' then
        (if (length s + 1) mod 5 \<noteq> 0 then None
         else (let n = 2 * (length s + 1) div 5
               in if n \<noteq> 6 \<and> n \<noteq> 8 \<and> n \<noteq> 20 then None else ParseMAC_dot s [0..<n div 2]))
      else None)"

text \<open>\<open>IPv4(a, b, c, d)\<close>: the 16-byte form of an IPv4 address.\<close>

definition IPv4 :: "byte \<Rightarrow> byte \<Rightarrow> byte \<Rightarrow> byte \<Rightarrow> byte list" where
  "IPv4 a b c d = [0, 0, 0, 0, 0, 0, 0, 0, 0, 0, 0xff, 0xff, a, b, c, d]"

text \<open>
  \<open>parseIPv4\<close>: \<open>for i := 0; i < IPv4len; i++\<close> over the rest of the string; the
  loop gives the rest and the octets read, \<open>None\<close> where it returns nil. An octet
  read from more than one digit (\<open>c > 1\<close>) must not begin with 0.
\<close>

fun parseIPv4_loop :: "nat list \<Rightarrow> string \<Rightarrow> byte list \<Rightarrow> (string \<times> byte list) option" where
  "parseIPv4_loop [] s p = Some (s, p)"
| "parseIPv4_loop (i # is) s p =
     (if length s = 0 then None
      else if i > 0 \<and> hd s \<noteq> CHR ''.'' then None
      else (let s1 = (if i > 0 then tl s else s)
            in case dtoi s1 of (n, c, ok) \<Rightarrow>
                 if \<not> ok \<or> n > 0xFF then None
                 else if c > 1 \<and> hd s1 = CHR ''0'' then None
                 else parseIPv4_loop is (drop c s1) (p @ [of_nat n])))"

definition parseIPv4 :: "string \<Rightarrow> IP" where
  "parseIPv4 s =
     (case parseIPv4_loop [0..<4] s [] of
        None \<Rightarrow> None
      | Some (rest, p) \<Rightarrow>
          if length rest \<noteq> 0 then None else Some (IPv4 (p ! 0) (p ! 1) (p ! 2) (p ! 3)))"

text \<open>
  \<open>parseIPv6\<close> without zone: the loop \<open>for j < IPv6len\<close> advances \<open>j\<close> by two on
  every iteration that continues, so \<open>j\<close> runs over 0, 2, ..., 14; \<open>ip\<close> holds the
  bytes written so far (its length is \<open>j\<close>) and \<open>ellipsis\<close> the position of \<open>::\<close>,
  \<open>None\<close> for -1. The loop gives the rest of the string, the bytes and the ellipsis,
  \<open>None\<close> where the function returns nil. A group is read from at most four hex
  digits (\<open>i1\<close> is the number of digits read).
\<close>

fun parseIPv6_loop ::
  "nat list \<Rightarrow> string \<Rightarrow> byte list \<Rightarrow> nat option \<Rightarrow> (string \<times> byte list \<times> nat option) option" where
  "parseIPv6_loop [] s ip ellipsis = Some (s, ip, ellipsis)"
| "parseIPv6_loop (j # js) s ip ellipsis =
     (case xtoi s of (n, i1, ok) \<Rightarrow>
        if \<not> ok \<or> n > 0xFFFF then None
        else if i1 > 4 then None
        else if i1 < length s \<and> s ! i1 = CHR ''.'' then
          (if ellipsis = None \<and> j \<noteq> 12 then None
           else if j + 4 > 16 then None
           else (case parseIPv4 s of
                   None \<Rightarrow> None
                 | Some ip4 \<Rightarrow> Some ([], ip @ drop 12 ip4, ellipsis)))
        else (let ip' = ip @ [of_nat (n div 256), of_nat n]; s1 = drop i1 s
              in if length s1 = 0 then Some (s1, ip', ellipsis)
                 else if hd s1 \<noteq> CHR '':'' \<or> length s1 = 1 then None
                 else (let s2 = tl s1
                       in if hd s2 = CHR '':'' then
                            (if ellipsis \<noteq> None then None
                             else if length (tl s2) = 0 then Some ([], ip', Some (j + 2))
                             else parseIPv6_loop js (tl s2) ip' (Some (j + 2)))
                          else parseIPv6_loop js s2 ip' ellipsis)))"

definition parseIPv6 :: "string \<Rightarrow> IP" where
  "parseIPv6 s0 =
     (let lead = (length s0 \<ge> 2 \<and> s0 ! 0 = CHR '':'' \<and> s0 ! 1 = CHR '':'');
          ellipsis = (if lead then Some 0 else None);
          s = (if lead then drop 2 s0 else s0)
      in if lead \<and> length s = 0 then Some (replicate 16 0)
         else (case parseIPv6_loop [0, 2, 4, 6, 8, 10, 12, 14] s [] ellipsis of
                 None \<Rightarrow> None
               | Some (rest, ip, ell) \<Rightarrow>
                   if length rest \<noteq> 0 then None
                   else if length ip < 16 then
                     (case ell of
                        None \<Rightarrow> None
                      | Some e \<Rightarrow> Some (take e ip @ replicate (16 - length ip) 0 @ drop e ip))
                   else if ell \<noteq> None then None
                   else Some ip))"

text \<open>\<open>ParseIP\<close>: the first dot or colon decides between the two parsers.\<close>

fun ParseIP_loop :: "string \<Rightarrow> string \<Rightarrow> IP" where
  "ParseIP_loop s [] = None"
| "ParseIP_loop s (c # cs) =
     (if c = CHR ''.'' then parseIPv4 s
      else if c = CHR '':'' then parseIPv6 s
      else ParseIP_loop s cs)"

definition ParseIP :: "string \<Rightarrow> IP" where
  "ParseIP s = ParseIP_loop s s"

text \<open>
  \<open>strings.Split(s, sep)\<close> for a separator of one byte: the substrings between the
  separators, in order. \<open>cur\<close> is the substring being read.
\<close>

fun strings_Split_loop :: "string \<Rightarrow> char \<Rightarrow> string \<Rightarrow> string list" where
  "strings_Split_loop [] sep cur = [cur]"
| "strings_Split_loop (c # cs) sep cur =
     (if c = sep then cur # strings_Split_loop cs sep []
      else strings_Split_loop cs sep (cur @ [c]))"

definition strings_Split :: "string \<Rightarrow> char \<Rightarrow> string list" where
  "strings_Split s sep = strings_Split_loop s sep []"

section \<open>GenerateMAC\<close>

text \<open>What \<open>rand.Read\<close> does to the six-byte buffer: an error, or six random bytes.\<close>

datatype rand_result = RandError | RandBytes byte byte byte byte byte byte

text \<open>\<open>%02x\<close> of a byte: two lower-case hex digits.\<close>

definition fmt_02x :: "byte \<Rightarrow> string" where
  "fmt_02x b = [hexDigit ! unat (drop_bit 4 b), hexDigit ! unat (b AND 0xF)]"

definition GenerateMAC :: "rand_result \<Rightarrow> string \<times> HardwareAddr" where
  "GenerateMAC r =
     (case r of
        RandError \<Rightarrow> ([], None)
      | RandBytes b0 b1 b2 b3 b4 b5 \<Rightarrow>
          (let buf0 = b0 OR 2;
               mac = ''06:'' @ fmt_02x b1 @ '':'' @ fmt_02x b2 @ '':'' @ fmt_02x b3
                     @ '':'' @ fmt_02x b4 @ '':'' @ fmt_02x b5
           in case ParseMAC mac of
                None \<Rightarrow> ([], None)
              | Some hw \<Rightarrow> (mac, Some hw)))"

section \<open>The peer registry\<close>

text \<open>
  \<open>AddPeer\<close>: the loop updates every record with the given id and reports whether
  it found one; otherwise a new record is appended. The parameter \<open>id\<close> is written
  \<open>id'\<close> here, \<open>id\<close> being the identity function of HOL.
\<close>

fun AddPeer_loop ::
  "NetworkPeer list \<Rightarrow> UDPAddr option \<Rightarrow> string \<Rightarrow> IP \<Rightarrow> HardwareAddr \<Rightarrow> bool
    \<Rightarrow> bool \<times> NetworkPeer list" where
  "AddPeer_loop [] addr id' ip mac found = (found, [])"
| "AddPeer_loop (peer # peers) addr id' ip mac found =
     (if ID peer = id'
      then (case AddPeer_loop peers addr id' ip mac True of (f, ps) \<Rightarrow>
              (f, peer\<lparr>CleanAddr := UDPAddr_String addr, ID := id', PeerAddr := addr,
                       PeerLocalIP := ip, PeerHW := mac, Unknown := False,
                       Handshaked := True\<rparr> # ps))
      else (case AddPeer_loop peers addr id' ip mac found of (f, ps) \<Rightarrow> (f, peer # ps)))"

definition AddPeer ::
  "PTPCloud \<Rightarrow> UDPAddr option \<Rightarrow> string \<Rightarrow> IP \<Rightarrow> HardwareAddr \<Rightarrow> PTPCloud" where
  "AddPeer ptp addr id' ip mac =
     (case AddPeer_loop (NetworkPeers ptp) addr id' ip mac False of (found, peers) \<Rightarrow>
        if \<not> found
        then ptp\<lparr>NetworkPeers := peers @
               [NetworkPeer_zero\<lparr>ID := id', CleanAddr := UDPAddr_String addr, PeerAddr := addr,
                  PeerLocalIP := ip, PeerHW := mac, Unknown := False, Handshaked := True\<rparr>]\<rparr>
        else ptp\<lparr>NetworkPeers := peers\<rparr>)"

text \<open>
  \<open>ParseIntroString\<close>. Its body is given first with the two calls into the library,
  \<open>net.ParseMAC\<close> and \<open>net.ParseIP\<close>, as parameters; the function itself calls the
  parsers above.
\<close>

definition ParseIntroString_with ::
  "(string \<Rightarrow> HardwareAddr) \<Rightarrow> (string \<Rightarrow> IP) \<Rightarrow> string \<Rightarrow> string \<times> HardwareAddr \<times> IP" where
  "ParseIntroString_with net_ParseMAC net_ParseIP intro =
     (let parts = strings_Split intro CHR '',''
      in if length parts \<noteq> 3 then ([], None, None)
         else (let id' = parts ! 0
               in case net_ParseMAC (parts ! 1) of
                    None \<Rightarrow> ([], None, None)
                  | Some mac \<Rightarrow>
                      (case net_ParseIP (parts ! 2) of
                         None \<Rightarrow> ([], None, None)
                       | Some ip \<Rightarrow> (id', Some mac, Some ip))))"

definition ParseIntroString :: "string \<Rightarrow> string \<times> HardwareAddr \<times> IP" where
  "ParseIntroString intro = ParseIntroString_with ParseMAC ParseIP intro"

fun IsPeerUnknown_loop :: "NetworkPeer list \<Rightarrow> UDPAddr option \<Rightarrow> bool" where
  "IsPeerUnknown_loop [] addr = True"
| "IsPeerUnknown_loop (peer # peers) addr =
     (if CleanAddr peer = UDPAddr_String addr then Unknown peer
      else IsPeerUnknown_loop peers addr)"

definition IsPeerUnknown :: "PTPCloud \<Rightarrow> UDPAddr option \<Rightarrow> bool" where
  "IsPeerUnknown ptp addr = IsPeerUnknown_loop (NetworkPeers ptp) addr"

text \<open>
  Modelled from the spec: the message constructors of package \<open>udpcs\<close> are not part
  of the source at hand. An introduction carries the introduction string as payload
  under type INTRO, a test message the given text under type TEST.
\<close>

definition CreateIntroP2PMessage :: "string \<Rightarrow> int \<Rightarrow> P2PMessage" where
  "CreateIntroP2PMessage intro netProto =
     \<lparr>Header_Type = MT_INTRO, Header_NetProto = netProto, Data = intro\<rparr>"

definition CreateTestP2PMessage :: "string \<Rightarrow> int \<Rightarrow> P2PMessage" where
  "CreateTestP2PMessage text netProto =
     \<lparr>Header_Type = MT_TEST, Header_NetProto = netProto, Data = text\<rparr>"

definition PrepareIntroductionMessage :: "PTPCloud \<Rightarrow> string \<Rightarrow> P2PMessage" where
  "PrepareIntroductionMessage ptp id' =
     (let intro = id' @ '','' @ Mac ptp @ '','' @ IP ptp
      in CreateIntroP2PMessage intro 0)"

definition WriteToDevice :: "PTPCloud \<Rightarrow> string \<Rightarrow> PTPCloud" where
  "WriteToDevice ptp b =
     (if \<not> Device ptp then ptp else ptp\<lparr>written := written ptp @ [(2054, b)]\<rparr>)"

text \<open>
  \<open>HandleP2PMessage\<close>: \<open>err\<close> is the error the listener passes in, \<open>buf\<close> the first
  \<open>count\<close> bytes of the receive buffer (zero-filled if the buffer is shorter).
\<close>

definition HandleP2PMessage ::
  "Env \<Rightarrow> PTPCloud \<Rightarrow> nat \<Rightarrow> UDPAddr option \<Rightarrow> string option \<Rightarrow> string \<Rightarrow> PTPCloud" where
  "HandleP2PMessage env ptp count src_addr err rcv_bytes =
     (if err \<noteq> None then ptp
      else (let buf = take count rcv_bytes @ replicate (count - length rcv_bytes) (CHR 0x00)
            in case P2PMessageFromBytes env buf of
                 None \<Rightarrow> ptp
               | Some msg \<Rightarrow>
                   (case Header_Type msg of
                      MT_INTRO \<Rightarrow>
                        if \<not> IsPeerUnknown ptp src_addr then ptp
                        else (case ParseIntroString (Data msg) of (id', mac, ip) \<Rightarrow>
                                (let ptp1 = AddPeer ptp src_addr id' ip mac;
                                     reply = PrepareIntroductionMessage ptp1 (dht_ID ptp1)
                                 in snd (SendMessage env ptp1 reply src_addr)))
                    | MT_TEST \<Rightarrow>
                        snd (SendMessage env ptp (CreateTestP2PMessage ''TEST'' 0) src_addr)
                    | MT_NENC \<Rightarrow> WriteToDevice ptp (Data msg)
                    | MT_other t \<Rightarrow> ptp)))"

section \<open>PurgePeers\<close>

text \<open>The first loop: the indices of the records whose id is not in \<open>ptp.dht.Peers\<close>.\<close>

fun PurgePeers_found :: "DHTPeer list \<Rightarrow> NetworkPeer \<Rightarrow> bool \<Rightarrow> bool" where
  "PurgePeers_found [] peer f = f"
| "PurgePeers_found (newPeer # newPeers) peer f =
     PurgePeers_found newPeers peer (if dht_peer_ID newPeer = ID peer then True else f)"

fun PurgePeers_rem :: "DHTPeer list \<Rightarrow> nat \<Rightarrow> NetworkPeer list \<Rightarrow> nat list" where
  "PurgePeers_rem dht i [] = []"
| "PurgePeers_rem dht i (peer # peers) =
     (if \<not> PurgePeers_found dht peer False then i # PurgePeers_rem dht (Suc i) peers
      else PurgePeers_rem dht (Suc i) peers)"

text \<open>
  The second loop: \<open>append(peers[:i], peers[i+1:]...)\<close> for each collected index in
  turn. The slice expression \<open>peers[i+1:]\<close> panics when \<open>i + 1\<close> exceeds the length.
\<close>

fun PurgePeers_remove :: "nat list \<Rightarrow> NetworkPeer list \<Rightarrow> error + NetworkPeer list" where
  "PurgePeers_remove [] peers = Inr peers"
| "PurgePeers_remove (i # is) peers =
     (if i + 1 > length peers then Inl SliceBoundsOutOfRange
      else PurgePeers_remove is (take i peers @ drop (i + 1) peers))"

definition PurgePeers :: "PTPCloud \<Rightarrow> string list \<Rightarrow> error + PTPCloud" where
  "PurgePeers ptp catched =
     (let rem = PurgePeers_rem (dht_Peers ptp) 0 (NetworkPeers ptp)
      in case PurgePeers_remove rem (NetworkPeers ptp) of
           Inl e \<Rightarrow> Inl e
         | Inr peers \<Rightarrow> Inr (ptp\<lparr>NetworkPeers := peers\<rparr>))"

section \<open>TestConnection\<close>

text \<open>
  The read loop of \<open>TestConnection\<close> over the reads that arrive on the probe socket:
  an error ends it with false, a read of at least one byte with true; when the reads are
  used up the deadline set three seconds after the write has passed and \<open>ReadFromUDP\<close>
  returns an error.
\<close>

fun TestConnection_reads :: "read_event list \<Rightarrow> bool" where
  "TestConnection_reads [] = False"
| "TestConnection_reads (ReadError # evs) = False"
| "TestConnection_reads (ReadBytes s # evs) = (if s > 0 then True else TestConnection_reads evs)"

definition TestConnection :: "Env \<Rightarrow> UDPAddr option \<Rightarrow> bool" where
  "TestConnection env endpoint =
     (case Probe env endpoint of
        DialError \<Rightarrow> False
      | WriteError \<Rightarrow> False
      | Reads evs \<Rightarrow> TestConnection_reads evs)"

section \<open>SyncPeers\<close>

text \<open>
  The merge of the addresses reported for a peer. \<open>stale\<close> is \<open>peer.KnownIPs\<close>, the
  list held by the copy of the record that \<open>range\<close> made when the iteration began;
  \<open>live\<close> is \<open>ptp.NetworkPeers[i].KnownIPs\<close>, the list that \<open>append\<close> extends.
\<close>

fun SyncPeers_ipFound :: "UDPAddr option list \<Rightarrow> string \<Rightarrow> bool \<Rightarrow> bool" where
  "SyncPeers_ipFound [] ip ipFound = ipFound"
| "SyncPeers_ipFound (kip # kips) ip ipFound =
     SyncPeers_ipFound kips ip (if UDPAddr_String kip = ip then True else ipFound)"

fun SyncPeers_merge ::
  "Env \<Rightarrow> UDPAddr option list \<Rightarrow> string list \<Rightarrow> UDPAddr option list \<Rightarrow> UDPAddr option list" where
  "SyncPeers_merge env stale [] live = live"
| "SyncPeers_merge env stale (ip # ips) live =
     (if ip = [] \<or> ip = ''0'' then SyncPeers_merge env stale ips live
      else if \<not> SyncPeers_ipFound stale ip False
      then SyncPeers_merge env stale ips (live @ [ResolveUDPAddr env ip])
      else SyncPeers_merge env stale ips live)"

text \<open>
  The probing of the known addresses against the networks of the local interfaces.
  The state is the live record \<open>ptp.NetworkPeers[i]\<close> and \<open>count\<close>. The log line
  dereferences \<open>kip\<close> and \<open>network\<close>, so a nil address or network panics.
\<close>

fun SyncPeers_probe_kips ::
  "Env \<Rightarrow> IPNet option \<Rightarrow> UDPAddr option list \<Rightarrow> NetworkPeer \<times> int
    \<Rightarrow> error + NetworkPeer \<times> int" where
  "SyncPeers_probe_kips env network [] st = Inr st"
| "SyncPeers_probe_kips env network (kip # kips) (live, count) =
     (case kip of
        None \<Rightarrow> Inl NilDereference
      | Some k \<Rightarrow>
          (case network of
             None \<Rightarrow> Inl NilDereference
           | Some n \<Rightarrow>
               if Contains env n k then
                 (if TestConnection env kip
                  then SyncPeers_probe_kips env network kips
                         (live\<lparr>Endpoint := UDPAddr_String kip\<rparr>, count + 1)
                  else SyncPeers_probe_kips env network kips (live, count))
               else SyncPeers_probe_kips env network kips (live, count)))"

fun SyncPeers_probe_addrs ::
  "Env \<Rightarrow> IPNet option list \<Rightarrow> NetworkPeer \<times> int \<Rightarrow> error + NetworkPeer \<times> int" where
  "SyncPeers_probe_addrs env [] st = Inr st"
| "SyncPeers_probe_addrs env (network # addrs) (live, count) =
     (case SyncPeers_probe_kips env network (KnownIPs live) (live, count) of
        Inl e \<Rightarrow> Inl e
      | Inr st \<Rightarrow> SyncPeers_probe_addrs env addrs st)"

fun SyncPeers_probe_interfaces ::
  "Env \<Rightarrow> string \<Rightarrow> Interface list \<Rightarrow> NetworkPeer \<times> int \<Rightarrow> error + NetworkPeer \<times> int" where
  "SyncPeers_probe_interfaces env deviceName [] st = Inr st"
| "SyncPeers_probe_interfaces env deviceName (inf' # infs) st =
     (if Name inf' = deviceName then SyncPeers_probe_interfaces env deviceName infs st
      else (case SyncPeers_probe_addrs env (Addrs inf') st of
              Inl e \<Rightarrow> Inl e
            | Inr st' \<Rightarrow> SyncPeers_probe_interfaces env deviceName infs st'))"

text \<open>
  The choice of an endpoint (the body of \<open>if peer.Endpoint == ""\<close>). \<open>peer\<close> is the
  copy made by \<open>range\<close>, \<open>live\<close> the record in the registry after the merge. The
  outcome of the probe of the first known address is not used by the code.
\<close>

definition SyncPeers_endpoint ::
  "Env \<Rightarrow> string \<Rightarrow> NetworkPeer \<Rightarrow> NetworkPeer \<times> int \<Rightarrow> error + NetworkPeer \<times> int" where
  "SyncPeers_endpoint env deviceName peer st =
     (let failback = (Interfaces env = None);
          interfaces = (case Interfaces env of None \<Rightarrow> [] | Some infs \<Rightarrow> infs)
      in case SyncPeers_probe_interfaces env deviceName interfaces st of
           Inl e \<Rightarrow> Inl e
         | Inr (live, count) \<Rightarrow>
             (let probed = (if Endpoint live = [] \<and> length (KnownIPs live) > 0
                            then TestConnection env (KnownIPs live ! 0) else True)
              in if failback \<or> Endpoint peer = [] \<and> length (KnownIPs live) > 0
                 then (case KnownIPs live of
                         [] \<Rightarrow> Inl IndexOutOfRange
                       | first # rest \<Rightarrow>
                           Inr (live\<lparr>Endpoint := UDPAddr_String first\<rparr>, count + 1))
                 else Inr (live, count)))"

text \<open>The body of the inner loop for a record whose id is the one looked for.\<close>

definition SyncPeers_peer ::
  "Env \<Rightarrow> string \<Rightarrow> DHTPeer \<Rightarrow> NetworkPeer \<Rightarrow> int \<Rightarrow> error + NetworkPeer \<times> int" where
  "SyncPeers_peer env deviceName id' peer count =
     (let live = peer\<lparr>KnownIPs := SyncPeers_merge env (KnownIPs peer) (Ips id') (KnownIPs peer)\<rparr>
      in if Endpoint peer = [] then SyncPeers_endpoint env deviceName peer (live, count)
         else Inr (live, count))"

text \<open>The inner loop over the registry: the records, \<open>found\<close> and \<open>count\<close>.\<close>

fun SyncPeers_inner ::
  "Env \<Rightarrow> string \<Rightarrow> DHTPeer \<Rightarrow> NetworkPeer list \<Rightarrow> bool \<Rightarrow> int
    \<Rightarrow> error + NetworkPeer list \<times> bool \<times> int" where
  "SyncPeers_inner env deviceName id' [] found count = Inr ([], found, count)"
| "SyncPeers_inner env deviceName id' (peer # peers) found count =
     (if ID peer = dht_peer_ID id' then
        (case SyncPeers_peer env deviceName id' peer count of
           Inl e \<Rightarrow> Inl e
         | Inr (live, count') \<Rightarrow>
             (case SyncPeers_inner env deviceName id' peers True count' of
                Inl e \<Rightarrow> Inl e
              | Inr (ps, f, c) \<Rightarrow> Inr (live # ps, f, c)))
      else (case SyncPeers_inner env deviceName id' peers found count of
              Inl e \<Rightarrow> Inl e
            | Inr (ps, f, c) \<Rightarrow> Inr (peer # ps, f, c)))"

text \<open>The outer loop over \<open>ptp.dht.Peers\<close>.\<close>

fun SyncPeers_outer :: "Env \<Rightarrow> PTPCloud \<Rightarrow> DHTPeer list \<Rightarrow> int \<Rightarrow> error + int \<times> PTPCloud" where
  "SyncPeers_outer env ptp [] count = Inr (count, ptp)"
| "SyncPeers_outer env ptp (id' # ids) count =
     (if dht_peer_ID id' = [] then SyncPeers_outer env ptp ids count
      else (case SyncPeers_inner env (DeviceName ptp) id' (NetworkPeers ptp) False count of
              Inl e \<Rightarrow> Inl e
            | Inr (peers, found, count') \<Rightarrow>
                if \<not> found
                then SyncPeers_outer env
                       (ptp\<lparr>NetworkPeers := peers @ [NetworkPeer_zero\<lparr>ID := dht_peer_ID id', Unknown := True\<rparr>],
                            requested := requested ptp @ [dht_peer_ID id']\<rparr>) ids count'
                else SyncPeers_outer env (ptp\<lparr>NetworkPeers := peers\<rparr>) ids count'))"

definition SyncPeers :: "Env \<Rightarrow> PTPCloud \<Rightarrow> string list \<Rightarrow> error + int \<times> PTPCloud" where
  "SyncPeers env ptp catched = SyncPeers_outer env ptp (dht_Peers ptp) 0"

section \<open>An example world\<close>

text \<open>
  A host with the overlay device \<open>vptp1\<close> and one LAN interface \<open>eth0\<close> on
  192.168.1.0/24. The LAN contains 192.168.1.7, which answers a probe with ten bytes;
  nothing else answers before the deadline. Three literal addresses resolve, to
  themselves. The decoder reads every datagram as an introduction with the buffer as
  payload, and the transport reports the payload length as sent.
\<close>

definition example_env :: Env where
  "example_env =
     \<lparr>ResolveUDPAddr = (\<lambda>s. if s = ''8.8.4.4:4000'' \<or> s = ''9.9.9.9:4000'' \<or> s = ''192.168.1.7:4000''
                              then Some s else None),
      Interfaces = Some [\<lparr>Name = ''vptp1'', Addrs = [Some ''10.10.10.1/24'']\<rparr>,
                         \<lparr>Name = ''eth0'', Addrs = [Some ''192.168.1.5/24'']\<rparr>],
      Contains = (\<lambda>n a. n = ''192.168.1.5/24'' \<and> a = ''192.168.1.7:4000''),
      Probe = (\<lambda>a. if a = Some ''192.168.1.7:4000'' then Reads [ReadBytes 10] else Reads []),
      P2PMessageFromBytes = (\<lambda>buf. Some \<lparr>Header_Type = MT_INTRO, Header_NetProto = 0, Data = buf\<rparr>),
      Transport = (\<lambda>msg addr. (int (length (Data msg)), None))\<rparr>"

text \<open>The agent \<open>peer-a\<close> with an empty registry and an empty rendezvous view.\<close>

definition example_ptp :: PTPCloud where
  "example_ptp =
     \<lparr>IP = ''10.10.10.1'', Mac = ''06:0a:0b:0c:0d:0e'', DeviceName = ''vptp1'', Device = True,
      NetworkPeers = [], dht_ID = ''peer-a'', dht_Peers = [], sendlog = [], requested = [],
      written = []\<rparr>"

text \<open>The record that \<open>SyncPeers\<close> appends for an id it has not seen.\<close>

definition example_peer :: "string \<Rightarrow> NetworkPeer" where
  "example_peer i = NetworkPeer_zero\<lparr>ID := i, Unknown := True\<rparr>"

definition example_frame :: P2PMessage where
  "example_frame = \<lparr>Header_Type = MT_NENC, Header_NetProto = 0, Data = ''frame''\<rparr>"

text \<open>
  The registry after \<open>peer-b\<close>, reached at 8.8.4.4:4000, has been added with its
  overlay address 10.10.10.2 and its MAC 06:01:02:03:04:05.
\<close>

definition example_handshaked :: PTPCloud where
  "example_handshaked =
     AddPeer example_ptp (Some ''8.8.4.4:4000'') ''peer-b'' (Some (IPv4 10 10 10 2))
       (Some [6, 1, 2, 3, 4, 5])"

definition example_intro :: string where
  "example_intro = ''peer-b,06:01:02:03:04:05,10.10.10.2''"

definition example_bad_intro :: string where
  "example_bad_intro = ''id-x,not-a-mac,10.0.0.2''"

text \<open>The registry after \<open>SyncPeers\<close> has learnt of \<open>peer-b\<close> from the rendezvous view.\<close>

definition example_discovered :: PTPCloud where
  "example_discovered = example_ptp\<lparr>NetworkPeers := [example_peer ''peer-b'']\<rparr>"

text \<open>Three records from earlier views, and a view that now holds only \<open>peer-d\<close>.\<close>

definition example_three :: PTPCloud where
  "example_three =
     example_ptp\<lparr>NetworkPeers := [example_peer ''peer-b'', example_peer ''peer-c'', example_peer ''peer-d''],
                 dht_Peers := [\<lparr>dht_peer_ID = ''peer-d'', Ips = []\<rparr>]\<rparr>"

text \<open>
  \<open>peer-b\<close> with an endpoint and one known address, and a view that lists for it the
  empty string, \<open>0\<close>, a new address twice and the known address.
\<close>

definition example_known :: PTPCloud where
  "example_known =
     example_ptp\<lparr>NetworkPeers :=
                   [(example_peer ''peer-b'')\<lparr>Endpoint := ''8.8.4.4:4000'',
                      KnownIPs := [Some ''8.8.4.4:4000'']\<rparr>],
                 dht_Peers :=
                   [\<lparr>dht_peer_ID = ''peer-b'',
                     Ips = ['''', ''0'', ''9.9.9.9:4000'', ''9.9.9.9:4000'', ''8.8.4.4:4000'']\<rparr>]\<rparr>"

text \<open>\<open>peer-b\<close> without endpoint, known at a public address and at a LAN address.\<close>

definition example_two_candidates :: PTPCloud where
  "example_two_candidates =
     example_ptp\<lparr>NetworkPeers :=
                   [(example_peer ''peer-b'')\<lparr>KnownIPs := [Some ''8.8.4.4:4000'', Some ''192.168.1.7:4000'']\<rparr>],
                 dht_Peers :=
                   [\<lparr>dht_peer_ID = ''peer-b'', Ips = [''8.8.4.4:4000'', ''192.168.1.7:4000'']\<rparr>]\<rparr>"

section \<open>Notions used in the statements\<close>

text \<open>The assignments that \<open>AddPeer\<close> makes to a record, found or new.\<close>

definition AddPeer_update ::
  "UDPAddr option \<Rightarrow> string \<Rightarrow> IP \<Rightarrow> HardwareAddr \<Rightarrow> NetworkPeer \<Rightarrow> NetworkPeer" where
  "AddPeer_update addr id' ip mac peer =
     peer\<lparr>CleanAddr := UDPAddr_String addr, ID := id', PeerAddr := addr,
          PeerLocalIP := ip, PeerHW := mac, Unknown := False, Handshaked := True\<rparr>"

section \<open>Hardware addresses: the text determines the bytes\<close>

lemma hexDigit_inj:
  assumes "i < 16" and "j < 16" and "hexDigit ! i = hexDigit ! j"
  shows "i = j"
proof -
  have "distinct hexDigit" and "length hexDigit = 16"
    by (simp_all add: hexDigit_def)
  with assms show ?thesis by (simp add: nth_eq_iff_index_eq)
qed

lemma hi_nibble: "unat (drop_bit 4 (b::byte)) = unat b div 16"
  by (simp add: drop_bit_eq_div unat_div)

lemma lo_nibble: "unat ((b::byte) AND 0xF) = unat b mod 16"
proof -
  have "b AND 0xF = take_bit 4 b"
    by (simp add: take_bit_eq_mask mask_eq_exp_minus_1)
  then show ?thesis by (simp add: take_bit_eq_mod unat_mod)
qed

lemma hi_nibble_less: "unat (drop_bit 4 (b::byte)) < 16"
proof -
  have "unat b < 256" using unsigned_less [of b, where ?'a = nat] by simp
  then show ?thesis by (simp add: hi_nibble)
qed

lemma lo_nibble_less: "unat ((b::byte) AND 0xF) < 16"
  by (simp add: lo_nibble)

lemma nibbles_inj:
  assumes "unat (drop_bit 4 (b::byte)) = unat (drop_bit 4 (c::byte))"
    and "unat (b AND 0xF) = unat (c AND 0xF)"
  shows "b = c"
proof -
  have "unat b div 16 = unat c div 16" using assms(1) by (simp add: hi_nibble)
  moreover have "unat b mod 16 = unat c mod 16" using assms(2) by (simp add: lo_nibble)
  ultimately have "unat b = unat c" by (metis div_mult_mod_eq)
  then show ?thesis by (rule word_unat_eq_iff [THEN iffD2])
qed

lemma HardwareAddr_String_loop_inj:
  "HardwareAddr_String_loop i bs = HardwareAddr_String_loop i cs \<Longrightarrow> bs = cs"
proof (induction bs arbitrary: cs i)
  case Nil
  then show ?case by (cases cs) auto
next
  case (Cons b bs)
  show ?case
  proof (cases cs)
    case Nil
    with Cons.prems show ?thesis by auto
  next
    case (Cons c cs')
    with Cons.prems have
      h: "hexDigit ! unat (drop_bit 4 b) = hexDigit ! unat (drop_bit 4 c)"
      and l: "hexDigit ! unat (b AND 0xF) = hexDigit ! unat (c AND 0xF)"
      and r: "HardwareAddr_String_loop (Suc i) bs = HardwareAddr_String_loop (Suc i) cs'"
      by (auto split: if_splits)
    have "b = c"
      using hexDigit_inj [OF hi_nibble_less hi_nibble_less h]
        hexDigit_inj [OF lo_nibble_less lo_nibble_less l]
      by (rule nibbles_inj)
    moreover have "bs = cs'" using Cons.IH [OF r] .
    ultimately show ?thesis using Cons by simp
  qed
qed

lemma HardwareAddr_String_eq_iff:
  "HardwareAddr_String a = HardwareAddr_String b \<longleftrightarrow> HardwareAddr_bytes a = HardwareAddr_bytes b"
proof -
  have s: "HardwareAddr_String x = HardwareAddr_String_loop 0 (HardwareAddr_bytes x)" for x
    by (cases x) (auto simp: HardwareAddr_String_def HardwareAddr_bytes_def)
  show ?thesis unfolding s using HardwareAddr_String_loop_inj by auto
qed

section \<open>Properties of the parsers\<close>

lemmas parse_defs = ParseMAC_def xtoi2_def xtoi_def ParseIP_def parseIPv4_def parseIPv6_def dtoi_def
  is_digit_def is_lower_hex_def is_upper_hex_def big_def upt_rec strings_Split_def









lemma strings_Split_example:
  "strings_Split example_intro CHR '','' = [''peer-b'', ''06:01:02:03:04:05'', ''10.10.10.2'']"
  by (simp add: strings_Split_def example_intro_def)

lemma strings_Split_bad_example:
  "strings_Split example_bad_intro CHR '','' = [''id-x'', ''not-a-mac'', ''10.0.0.2'']"
  by (simp add: strings_Split_def example_bad_intro_def)

lemma ParseMAC_example: "ParseMAC ''06:01:02:03:04:05'' = Some [6, 1, 2, 3, 4, 5]"
  by (simp add: parse_defs)

lemma ParseIP_example: "ParseIP ''10.10.10.2'' = Some (IPv4 10 10 10 2)"
  by (simp add: parse_defs)

lemma ParseIntroString_example: 
  "ParseIntroString example_intro = (''peer-b'', Some [6, 1, 2, 3, 4, 5], Some (IPv4 10 10 10 2))"
  unfolding ParseIntroString_def ParseIntroString_with_def strings_Split_example
  by (simp add: ParseMAC_example ParseIP_example)

lemma ParseIntroString_bad_example: 
  "ParseIntroString example_bad_intro = ([], None, None)"
  unfolding ParseIntroString_def ParseIntroString_with_def strings_Split_bad_example
  by (simp add: ParseMAC_def)




text \<open>The two checks of current releases, and an address with octets that are 0.\<close>

lemma ParseIP_leading_zero: "ParseIP ''010.0.0.1'' = None"
  by (simp add: parse_defs)

lemma ParseIP_long_group: "ParseIP ''::00001'' = None"
  by (simp add: parse_defs)

lemma ParseIP_zero_octets: "ParseIP ''10.0.0.2'' = Some (IPv4 10 0 0 2)"
  by (simp add: parse_defs)

section \<open>Properties of ParseIntroString\<close>




section \<open>What AddPeer and the handling of an introduction compute\<close>

lemma AddPeer_loop_eq:
  "AddPeer_loop peers addr id' ip mac found
   = (found \<or> (\<exists>p \<in> set peers. ID p = id'),
      map (\<lambda>peer. if ID peer = id' then AddPeer_update addr id' ip mac peer else peer) peers)"
  by (induction peers arbitrary: found) (auto simp: AddPeer_update_def)

lemma AddPeer_NetworkPeers:
  "NetworkPeers (AddPeer ptp addr id' ip mac)
   = map (\<lambda>peer. if ID peer = id' then AddPeer_update addr id' ip mac peer else peer) (NetworkPeers ptp)
     @ (if \<exists>p \<in> set (NetworkPeers ptp). ID p = id' then []
        else [AddPeer_update addr id' ip mac NetworkPeer_zero])"
  by (simp add: AddPeer_def AddPeer_loop_eq AddPeer_update_def)

lemma AddPeer_other_fields:
  "sendlog (AddPeer ptp addr id' ip mac) = sendlog ptp"
  "dht_ID (AddPeer ptp addr id' ip mac) = dht_ID ptp"
  "Mac (AddPeer ptp addr id' ip mac) = Mac ptp"
  "IP (AddPeer ptp addr id' ip mac) = IP ptp"
  by (simp_all add: AddPeer_def split: prod.splits)

lemma example_handshaked_eq:
  "example_handshaked = example_ptp\<lparr>NetworkPeers :=
     [NetworkPeer_zero\<lparr>ID := ''peer-b'', CleanAddr := ''8.8.4.4:4000'',
        PeerAddr := Some ''8.8.4.4:4000'', PeerLocalIP := Some (IPv4 10 10 10 2),
        PeerHW := Some [6, 1, 2, 3, 4, 5], Unknown := False, Handshaked := True\<rparr>]\<rparr>"
  by (simp add: example_handshaked_def AddPeer_def example_ptp_def UDPAddr_String_def)

lemma IsPeerUnknown_loop_no_match:
  "\<forall>p \<in> set peers. CleanAddr p \<noteq> UDPAddr_String addr \<Longrightarrow> IsPeerUnknown_loop peers addr"
  by (induction peers) auto

lemma PrepareIntroductionMessage_AddPeer:
  "PrepareIntroductionMessage (AddPeer ptp addr id' ip mac) (dht_ID (AddPeer ptp addr id' ip mac))
   = PrepareIntroductionMessage ptp (dht_ID ptp)"
  by (simp add: PrepareIntroductionMessage_def AddPeer_other_fields)

lemma HandleP2PMessage_intro:
  assumes "P2PMessageFromBytes env
             (take count rcv_bytes @ replicate (count - length rcv_bytes) (CHR 0x00)) = Some msg"
    and "Header_Type msg = MT_INTRO"
    and "IsPeerUnknown ptp src_addr"
    and "ParseIntroString (Data msg) = (id', mac, ip)"
  shows "HandleP2PMessage env ptp count src_addr None rcv_bytes
         = (AddPeer ptp src_addr id' ip mac)
             \<lparr>sendlog := sendlog ptp @ [(PrepareIntroductionMessage ptp (dht_ID ptp), src_addr)]\<rparr>"
  using assms
  by (simp add: HandleP2PMessage_def SendMessage_def Let_def PrepareIntroductionMessage_def
      AddPeer_other_fields)

section \<open>Properties of AddPeer\<close>

text \<open>
  C1, as amended: after every call of \<open>AddPeer\<close>, whatever the arguments, there is a
  record of the given id, and every record of that id has \<open>Handshaked\<close> true,
  \<open>Unknown\<close> false, the source address as clean address, and the peer virtual IP and
  MAC that were passed in; these are non-nil when the values passed in are. \<open>AddPeer\<close>
  does not set \<open>Endpoint\<close>: a record that was there keeps the one it had and a record
  that is inserted has the empty one.
\<close>

theorem AddPeer_handshake:
  "(\<exists>p \<in> set (NetworkPeers (AddPeer ptp addr id' ip mac)). ID p = id')
    \<and> (\<forall>p \<in> set (NetworkPeers (AddPeer ptp addr id' ip mac)). ID p = id' \<longrightarrow>
          Handshaked p \<and> \<not> Unknown p \<and> CleanAddr p = UDPAddr_String addr
          \<and> PeerLocalIP p = ip \<and> PeerHW p = mac
          \<and> (ip \<noteq> None \<longrightarrow> PeerLocalIP p \<noteq> None) \<and> (mac \<noteq> None \<longrightarrow> PeerHW p \<noteq> None))
    \<and> map Endpoint (NetworkPeers (AddPeer ptp addr id' ip mac))
        = map Endpoint (NetworkPeers ptp)
          @ (if \<exists>p \<in> set (NetworkPeers ptp). ID p = id' then [] else [[]])"
proof (intro conjI)
  show "\<exists>p \<in> set (NetworkPeers (AddPeer ptp addr id' ip mac)). ID p = id'"
  proof (cases "\<exists>p \<in> set (NetworkPeers ptp). ID p = id'")
    case True
    then obtain p where p: "p \<in> set (NetworkPeers ptp)" "ID p = id'" by blast
    then have "AddPeer_update addr id' ip mac p \<in> set (NetworkPeers (AddPeer ptp addr id' ip mac))"
      unfolding AddPeer_NetworkPeers by force
    moreover have "ID (AddPeer_update addr id' ip mac p) = id'"
      by (simp add: AddPeer_update_def)
    ultimately show ?thesis by blast
  next
    case False
    then show ?thesis
      unfolding AddPeer_NetworkPeers by (simp add: AddPeer_update_def)
  qed
  show "\<forall>p \<in> set (NetworkPeers (AddPeer ptp addr id' ip mac)). ID p = id' \<longrightarrow>
          Handshaked p \<and> \<not> Unknown p \<and> CleanAddr p = UDPAddr_String addr
          \<and> PeerLocalIP p = ip \<and> PeerHW p = mac
          \<and> (ip \<noteq> None \<longrightarrow> PeerLocalIP p \<noteq> None) \<and> (mac \<noteq> None \<longrightarrow> PeerHW p \<noteq> None)"
    unfolding AddPeer_NetworkPeers by (auto simp: AddPeer_update_def split: if_splits)
  show "map Endpoint (NetworkPeers (AddPeer ptp addr id' ip mac))
        = map Endpoint (NetworkPeers ptp)
          @ (if \<exists>p \<in> set (NetworkPeers ptp). ID p = id' then [] else [[]])"
  proof -
    have "Endpoint (if ID peer = id' then AddPeer_update addr id' ip mac peer else peer) = Endpoint peer"
      for peer by (simp add: AddPeer_update_def)
    then show ?thesis
      unfolding AddPeer_NetworkPeers by (simp add: AddPeer_update_def NetworkPeer_zero_def comp_def)
  qed
qed

text \<open>
  The call for the valid introduction of \<open>peer-b\<close>, and the call that
  \<open>HandleP2PMessage\<close> makes after a failed parse, with the empty id and nil addresses.
\<close>

theorem AddPeer_handshake_witness:
  "list_ex (\<lambda>p. ID p = ''peer-b'') (NetworkPeers example_handshaked)
   \<and> list_all (\<lambda>p. ID p = ''peer-b'' \<longrightarrow> Handshaked p \<and> \<not> Unknown p
        \<and> CleanAddr p = ''8.8.4.4:4000'' \<and> PeerLocalIP p = Some (IPv4 10 10 10 2)
        \<and> PeerHW p = Some [6, 1, 2, 3, 4, 5] \<and> PeerLocalIP p \<noteq> None \<and> PeerHW p \<noteq> None)
       (NetworkPeers example_handshaked)
   \<and> map Endpoint (NetworkPeers example_handshaked) = [[]]
   \<and> list_ex (\<lambda>p. ID p = [])
        (NetworkPeers (AddPeer example_discovered (Some ''8.8.4.4:4000'') [] None None))
   \<and> list_all (\<lambda>p. ID p = [] \<longrightarrow> Handshaked p \<and> \<not> Unknown p
        \<and> CleanAddr p = ''8.8.4.4:4000'' \<and> PeerLocalIP p = None \<and> PeerHW p = None)
       (NetworkPeers (AddPeer example_discovered (Some ''8.8.4.4:4000'') [] None None))
   \<and> map Endpoint (NetworkPeers (AddPeer example_discovered (Some ''8.8.4.4:4000'') [] None None))
       = [[], []]"
proof -
  have n: "list_all (\<lambda>p. ID p \<noteq> []) (NetworkPeers example_discovered)"
    "map Endpoint (NetworkPeers example_discovered) = [[]]"
    by (simp_all add: example_discovered_def example_peer_def NetworkPeer_zero_def)
  have e: "NetworkPeers example_ptp = []"
    by (simp add: example_ptp_def)
  show ?thesis
    unfolding example_handshaked_def
    using AddPeer_handshake [of example_ptp "Some ''8.8.4.4:4000''" "''peer-b''"
        "Some (IPv4 10 10 10 2)" "Some [6, 1, 2, 3, 4, 5]"]
      AddPeer_handshake [of example_discovered "Some ''8.8.4.4:4000''" "[]" None None] n
    by (simp add: list_all_iff list_ex_iff UDPAddr_String_def e)
qed

text \<open>
  C1 as stated fails in two states that one introduction each reaches from an empty
  registry. After the valid introduction of \<open>peer-b\<close> the record that \<open>AddPeer\<close>
  inserts is handshaked and has its IP and MAC, and its \<open>Endpoint\<close> is empty. After
  the introduction that fails to parse the inserted record is handshaked and has
  neither IP nor MAC.
\<close>

theorem AddPeer_handshake_counterexample:
  "NetworkPeers (HandleP2PMessage example_env example_ptp (length example_intro)
      (Some ''8.8.4.4:4000'') None example_intro) = NetworkPeers example_handshaked
   \<and> Handshaked (hd (NetworkPeers example_handshaked))
   \<and> PeerLocalIP (hd (NetworkPeers example_handshaked)) \<noteq> None
   \<and> PeerHW (hd (NetworkPeers example_handshaked)) \<noteq> None
   \<and> Endpoint (hd (NetworkPeers example_handshaked)) = []
   \<and> Handshaked (hd (NetworkPeers (HandleP2PMessage example_env example_ptp
        (length example_bad_intro) (Some ''8.8.4.4:4000'') None example_bad_intro)))
   \<and> PeerLocalIP (hd (NetworkPeers (HandleP2PMessage example_env example_ptp
        (length example_bad_intro) (Some ''8.8.4.4:4000'') None example_bad_intro))) = None
   \<and> PeerHW (hd (NetworkPeers (HandleP2PMessage example_env example_ptp
        (length example_bad_intro) (Some ''8.8.4.4:4000'') None example_bad_intro))) = None"
proof -
  have a: "P2PMessageFromBytes example_env
      (take (length example_intro) example_intro
         @ replicate (length example_intro - length example_intro) (CHR 0x00))
     = Some \<lparr>Header_Type = MT_INTRO, Header_NetProto = 0, Data = example_intro\<rparr>"
    by (simp add: example_env_def)
  have b: "P2PMessageFromBytes example_env
      (take (length example_bad_intro) example_bad_intro
         @ replicate (length example_bad_intro - length example_bad_intro) (CHR 0x00))
     = Some \<lparr>Header_Type = MT_INTRO, Header_NetProto = 0, Data = example_bad_intro\<rparr>"
    by (simp add: example_env_def)
  have u: "IsPeerUnknown example_ptp (Some ''8.8.4.4:4000'')"
    by (simp add: IsPeerUnknown_def example_ptp_def)
  have good: "HandleP2PMessage example_env example_ptp (length example_intro)
         (Some ''8.8.4.4:4000'') None example_intro
       = example_handshaked
         \<lparr>sendlog := sendlog example_ptp
            @ [(PrepareIntroductionMessage example_ptp (dht_ID example_ptp), Some ''8.8.4.4:4000'')]\<rparr>"
    unfolding example_handshaked_def
    by (rule HandleP2PMessage_intro [OF a _ u]) (simp_all add: ParseIntroString_example)
  have bad: "HandleP2PMessage example_env example_ptp (length example_bad_intro)
         (Some ''8.8.4.4:4000'') None example_bad_intro
       = (AddPeer example_ptp (Some ''8.8.4.4:4000'') [] None None)
         \<lparr>sendlog := sendlog example_ptp
            @ [(PrepareIntroductionMessage example_ptp (dht_ID example_ptp), Some ''8.8.4.4:4000'')]\<rparr>"
    by (rule HandleP2PMessage_intro [OF b _ u]) (simp_all add: ParseIntroString_bad_example)
  have rec: "NetworkPeers (AddPeer example_ptp (Some ''8.8.4.4:4000'') [] None None)
      = [NetworkPeer_zero\<lparr>CleanAddr := ''8.8.4.4:4000'', PeerAddr := Some ''8.8.4.4:4000'',
           Handshaked := True\<rparr>]"
    by (simp add: AddPeer_def example_ptp_def NetworkPeer_zero_def UDPAddr_String_def)
  show ?thesis
    unfolding good bad
    by (simp add: example_handshaked_eq rec NetworkPeer_zero_def)
qed

section \<open>Properties of HandleP2PMessage\<close>

text \<open>
  C10, as amended: an INTRO message from a source address that is no record's clean
  address is treated as coming from an unknown peer, whatever the rendezvous view holds,
  and an INTRO reply is sent to the source. When the id that the payload parses to is
  the id of no record, a new record is appended, with that id, \<open>Unknown\<close> false and
  \<open>Handshaked\<close> true; when records of that id exist, none is appended and those
  records are updated in place.
\<close>

theorem HandleP2PMessage_intro_from_unknown_address:
  assumes "P2PMessageFromBytes env
             (take count rcv_bytes @ replicate (count - length rcv_bytes) (CHR 0x00)) = Some msg"
    and "Header_Type msg = MT_INTRO"
    and "\<forall>p \<in> set (NetworkPeers ptp). CleanAddr p \<noteq> UDPAddr_String src_addr"
    and "ParseIntroString (Data msg) = (id', mac, ip)"
  shows "IsPeerUnknown ptp src_addr
    \<and> sendlog (HandleP2PMessage env ptp count src_addr None rcv_bytes)
        = sendlog ptp @ [(PrepareIntroductionMessage ptp (dht_ID ptp), src_addr)]
    \<and> (\<not> (\<exists>p \<in> set (NetworkPeers ptp). ID p = id') \<longrightarrow>
         (\<exists>new. NetworkPeers (HandleP2PMessage env ptp count src_addr None rcv_bytes)
                  = NetworkPeers ptp @ [new]
            \<and> ID new = id' \<and> \<not> Unknown new \<and> Handshaked new
            \<and> CleanAddr new = UDPAddr_String src_addr))
    \<and> ((\<exists>p \<in> set (NetworkPeers ptp). ID p = id') \<longrightarrow>
         NetworkPeers (HandleP2PMessage env ptp count src_addr None rcv_bytes)
           = map (\<lambda>peer. if ID peer = id' then AddPeer_update src_addr id' ip mac peer else peer)
               (NetworkPeers ptp))"
proof -
  have u: "IsPeerUnknown ptp src_addr"
    unfolding IsPeerUnknown_def using assms(3) by (rule IsPeerUnknown_loop_no_match)
  note h = HandleP2PMessage_intro [OF assms(1,2) u assms(4)]
  have n: "map (\<lambda>peer. if ID peer = id' then AddPeer_update src_addr id' ip mac peer else peer)
             (NetworkPeers ptp) = NetworkPeers ptp"
    if "\<forall>p \<in> set (NetworkPeers ptp). ID p \<noteq> id'"
    using that by (simp add: map_idI)
  show ?thesis
    using u n by (simp add: h AddPeer_NetworkPeers AddPeer_update_def)
qed

theorem HandleP2PMessage_intro_from_unknown_address_witness:
  "P2PMessageFromBytes example_env
      (take (length example_intro) example_intro
         @ replicate (length example_intro - length example_intro) (CHR 0x00))
     = Some \<lparr>Header_Type = MT_INTRO, Header_NetProto = 0, Data = example_intro\<rparr>
   \<and> list_all (\<lambda>p. CleanAddr p \<noteq> UDPAddr_String (Some ''8.8.4.4:4000'')) (NetworkPeers example_ptp)
   \<and> ParseIntroString example_intro = (''peer-b'', Some [6, 1, 2, 3, 4, 5], Some (IPv4 10 10 10 2))
   \<and> list_all (\<lambda>p. ID p \<noteq> ''peer-b'') (NetworkPeers example_ptp)
   \<and> sendlog (HandleP2PMessage example_env example_ptp (length example_intro)
         (Some ''8.8.4.4:4000'') None example_intro)
       = [(PrepareIntroductionMessage example_ptp ''peer-a'', Some ''8.8.4.4:4000'')]
   \<and> length (NetworkPeers (HandleP2PMessage example_env example_ptp (length example_intro)
         (Some ''8.8.4.4:4000'') None example_intro)) = 1
   \<and> Handshaked (hd (NetworkPeers (HandleP2PMessage example_env example_ptp (length example_intro)
         (Some ''8.8.4.4:4000'') None example_intro)))
   \<and> \<not> Unknown (hd (NetworkPeers (HandleP2PMessage example_env example_ptp (length example_intro)
         (Some ''8.8.4.4:4000'') None example_intro)))"
proof -
  have a: "P2PMessageFromBytes example_env
      (take (length example_intro) example_intro
         @ replicate (length example_intro - length example_intro) (CHR 0x00))
     = Some \<lparr>Header_Type = MT_INTRO, Header_NetProto = 0, Data = example_intro\<rparr>"
    by (simp add: example_env_def)
  have b: "Header_Type \<lparr>Header_Type = MT_INTRO, Header_NetProto = 0, Data = example_intro\<rparr> = MT_INTRO"
    by simp
  have c: "\<forall>p \<in> set (NetworkPeers example_ptp). CleanAddr p \<noteq> UDPAddr_String (Some ''8.8.4.4:4000'')"
    by (simp add: example_ptp_def)
  have d: "ParseIntroString (Data \<lparr>Header_Type = MT_INTRO, Header_NetProto = 0, Data = example_intro\<rparr>)
      = (''peer-b'', Some [6, 1, 2, 3, 4, 5], Some (IPv4 10 10 10 2))"
    by (simp add: ParseIntroString_example)
  have e: "NetworkPeers example_ptp = []" "sendlog example_ptp = []" "dht_ID example_ptp = ''peer-a''"
    by (simp_all add: example_ptp_def)
  show ?thesis
    using HandleP2PMessage_intro_from_unknown_address [OF a b c d]
    by (auto simp: e example_env_def ParseIntroString_example list_all_iff)
qed

text \<open>
  C10 as stated fails: \<open>peer-b\<close> is in the registry from the rendezvous view, with no
  clean address yet; its introduction appends no record, the record is updated.
\<close>

theorem HandleP2PMessage_intro_from_unknown_address_counterexample:
  "CleanAddr (hd (NetworkPeers example_discovered)) \<noteq> UDPAddr_String (Some ''8.8.4.4:4000'')
   \<and> length (NetworkPeers example_discovered) = 1
   \<and> NetworkPeers (HandleP2PMessage example_env example_discovered (length example_intro)
         (Some ''8.8.4.4:4000'') None example_intro)
       = [AddPeer_update (Some ''8.8.4.4:4000'') ''peer-b'' (Some (IPv4 10 10 10 2))
            (Some [6, 1, 2, 3, 4, 5]) (example_peer ''peer-b'')]"
proof -
  have a: "P2PMessageFromBytes example_env
      (take (length example_intro) example_intro
         @ replicate (length example_intro - length example_intro) (CHR 0x00))
     = Some \<lparr>Header_Type = MT_INTRO, Header_NetProto = 0, Data = example_intro\<rparr>"
    by (simp add: example_env_def)
  have u: "IsPeerUnknown example_discovered (Some ''8.8.4.4:4000'')"
    by (simp add: IsPeerUnknown_def example_discovered_def example_peer_def NetworkPeer_zero_def
        UDPAddr_String_def)
  have h: "HandleP2PMessage example_env example_discovered (length example_intro)
         (Some ''8.8.4.4:4000'') None example_intro
       = (AddPeer example_discovered (Some ''8.8.4.4:4000'') ''peer-b'' (Some (IPv4 10 10 10 2))
           (Some [6, 1, 2, 3, 4, 5]))
         \<lparr>sendlog := sendlog example_discovered
            @ [(PrepareIntroductionMessage example_discovered (dht_ID example_discovered),
                Some ''8.8.4.4:4000'')]\<rparr>"
    by (rule HandleP2PMessage_intro [OF a _ u]) (simp_all add: ParseIntroString_example)
  show ?thesis
    unfolding h
    by (simp add: AddPeer_NetworkPeers example_discovered_def example_peer_def NetworkPeer_zero_def
        UDPAddr_String_def)
qed

text \<open>
  C2 does not hold of the code: \<open>HandleP2PMessage\<close> does not look at what
  \<open>ParseIntroString\<close> returns. For an INTRO message from a sender that counts as
  unknown, with a payload that fails to parse, the handler still runs \<open>AddPeer\<close>, with
  the empty id and the nil MAC and IP, and still sends an INTRO reply to the source:
  the log of sent datagrams grows, and the registry holds a record with the empty id
  that is handshaked and has neither MAC nor IP.
\<close>

theorem HandleP2PMessage_malformed_intro:
  assumes "P2PMessageFromBytes env
             (take count rcv_bytes @ replicate (count - length rcv_bytes) (CHR 0x00)) = Some msg"
    and "Header_Type msg = MT_INTRO"
    and "IsPeerUnknown ptp src_addr"
    and "ParseIntroString (Data msg) = ([], None, None)"
  shows "HandleP2PMessage env ptp count src_addr None rcv_bytes
           = (AddPeer ptp src_addr [] None None)
               \<lparr>sendlog := sendlog ptp @ [(PrepareIntroductionMessage ptp (dht_ID ptp), src_addr)]\<rparr>
    \<and> sendlog (HandleP2PMessage env ptp count src_addr None rcv_bytes) \<noteq> sendlog ptp
    \<and> (\<exists>p \<in> set (NetworkPeers (HandleP2PMessage env ptp count src_addr None rcv_bytes)).
          ID p = [] \<and> Handshaked p \<and> PeerHW p = None \<and> PeerLocalIP p = None)"
proof -
  note h = HandleP2PMessage_intro [OF assms]
  have "\<exists>p \<in> set (NetworkPeers (AddPeer ptp src_addr [] None None)).
          ID p = [] \<and> Handshaked p \<and> PeerHW p = None \<and> PeerLocalIP p = None"
  proof (cases "\<exists>p \<in> set (NetworkPeers ptp). ID p = []")
    case True
    then obtain p where p: "p \<in> set (NetworkPeers ptp)" "ID p = []" by blast
    then have "AddPeer_update src_addr [] None None p
        \<in> set (NetworkPeers (AddPeer ptp src_addr [] None None))"
      unfolding AddPeer_NetworkPeers by force
    then show ?thesis
      by (rule rev_bexI) (simp add: AddPeer_update_def)
  next
    case False
    then show ?thesis
      unfolding AddPeer_NetworkPeers by (simp add: AddPeer_update_def)
  qed
  then show ?thesis
    by (simp add: h)
qed

text \<open>
  The payload \<open>id-x,not-a-mac,10.0.0.2\<close> arrives at an agent with an empty registry:
  a record is appended, and the reply is sent.
\<close>

theorem HandleP2PMessage_malformed_intro_witness:
  "P2PMessageFromBytes example_env
      (take (length example_bad_intro) example_bad_intro
         @ replicate (length example_bad_intro - length example_bad_intro) (CHR 0x00))
     = Some \<lparr>Header_Type = MT_INTRO, Header_NetProto = 0, Data = example_bad_intro\<rparr>
   \<and> IsPeerUnknown example_ptp (Some ''8.8.4.4:4000'')
   \<and> ParseIntroString example_bad_intro = ([], None, None)
   \<and> HandleP2PMessage example_env example_ptp (length example_bad_intro)
        (Some ''8.8.4.4:4000'') None example_bad_intro
      = example_ptp
          \<lparr>NetworkPeers := [NetworkPeer_zero\<lparr>CleanAddr := ''8.8.4.4:4000'',
               PeerAddr := Some ''8.8.4.4:4000'', Handshaked := True\<rparr>],
           sendlog := [(CreateIntroP2PMessage ''peer-a,06:0a:0b:0c:0d:0e,10.10.10.1'' 0,
               Some ''8.8.4.4:4000'')]\<rparr>"
proof -
  have a: "P2PMessageFromBytes example_env
      (take (length example_bad_intro) example_bad_intro
         @ replicate (length example_bad_intro - length example_bad_intro) (CHR 0x00))
     = Some \<lparr>Header_Type = MT_INTRO, Header_NetProto = 0, Data = example_bad_intro\<rparr>"
    by (simp add: example_env_def)
  have b: "Header_Type \<lparr>Header_Type = MT_INTRO, Header_NetProto = 0, Data = example_bad_intro\<rparr>
      = MT_INTRO"
    by simp
  have u: "IsPeerUnknown example_ptp (Some ''8.8.4.4:4000'')"
    by (simp add: IsPeerUnknown_def example_ptp_def)
  have f: "ParseIntroString (Data \<lparr>Header_Type = MT_INTRO, Header_NetProto = 0, Data = example_bad_intro\<rparr>)
      = ([], None, None)"
    by (simp add: ParseIntroString_bad_example)
  have r: "(AddPeer example_ptp (Some ''8.8.4.4:4000'') [] None None)
         \<lparr>sendlog := sendlog example_ptp
            @ [(PrepareIntroductionMessage example_ptp (dht_ID example_ptp), Some ''8.8.4.4:4000'')]\<rparr>
      = example_ptp
          \<lparr>NetworkPeers := [NetworkPeer_zero\<lparr>CleanAddr := ''8.8.4.4:4000'',
               PeerAddr := Some ''8.8.4.4:4000'', Handshaked := True\<rparr>],
           sendlog := [(CreateIntroP2PMessage ''peer-a,06:0a:0b:0c:0d:0e,10.10.10.1'' 0,
               Some ''8.8.4.4:4000'')]\<rparr>"
    by (simp add: AddPeer_def PrepareIntroductionMessage_def example_ptp_def NetworkPeer_zero_def
        UDPAddr_String_def)
  show ?thesis
    using HandleP2PMessage_malformed_intro [OF a b u f] a u
    by (simp add: r ParseIntroString_bad_example)
qed

section \<open>Properties of SendTo\<close>

lemma SendTo_loop_no_match:
  "\<forall>peer \<in> set peers. HardwareAddr_bytes (PeerHW peer) \<noteq> HardwareAddr_bytes dst
   \<Longrightarrow> SendTo_loop env ptp peers dst msg = ((0, None), ptp)"
  by (induction peers) (simp_all add: HardwareAddr_String_eq_iff)

lemma SendTo_loop_first_match:
  assumes "\<forall>p \<in> set before. HardwareAddr_bytes (PeerHW p) \<noteq> HardwareAddr_bytes dst"
    and "HardwareAddr_bytes (PeerHW peer) = HardwareAddr_bytes dst"
  shows "SendTo_loop env ptp (before @ peer # after) dst msg = SendMessage env ptp msg (PeerAddr peer)"
  using assms by (induction before) (simp_all add: HardwareAddr_String_eq_iff)

text \<open>
  C7: in a registry where no record's peer virtual MAC equals the destination MAC,
  \<open>SendTo\<close> returns zero bytes sent and a nil error and emits no datagram: the state,
  with its log of sent datagrams, is returned as it was.
\<close>

theorem SendTo_unknown_mac:
  assumes "\<forall>peer \<in> set (NetworkPeers ptp). HardwareAddr_bytes (PeerHW peer) \<noteq> HardwareAddr_bytes dst"
  shows "SendTo env ptp dst msg = ((0, None), ptp)"
  using assms unfolding SendTo_def by (rule SendTo_loop_no_match)

text \<open>The registry knows the MAC 06:01:02:03:04:05; a frame for 06:01:02:03:04:06 goes nowhere.\<close>

theorem SendTo_unknown_mac_witness:
  "list_all (\<lambda>peer. HardwareAddr_bytes (PeerHW peer) \<noteq> HardwareAddr_bytes (Some [6, 1, 2, 3, 4, 6]))
     (NetworkPeers example_handshaked)
   \<and> SendTo example_env example_handshaked (Some [6, 1, 2, 3, 4, 6]) example_frame
      = ((0, None), example_handshaked)"
proof -
  have h: "\<forall>peer \<in> set (NetworkPeers example_handshaked).
      HardwareAddr_bytes (PeerHW peer) \<noteq> HardwareAddr_bytes (Some [6, 1, 2, 3, 4, 6])"
    by (simp add: example_handshaked_eq NetworkPeer_zero_def HardwareAddr_bytes_def)
  show ?thesis using h SendTo_unknown_mac [OF h] by (simp add: list_all_iff)
qed

text \<open>
  C6, as amended: \<open>SendTo\<close> does not consult \<open>Endpoint\<close>. It hands the frame to the
  socket for the \<open>PeerAddr\<close> of the first record whose peer virtual MAC equals the
  destination MAC, whatever the \<open>Endpoint\<close> of that record is, and returns what the
  transport returns.
\<close>

theorem SendTo_ignores_Endpoint:
  assumes "NetworkPeers ptp = before @ peer # after"
    and "\<forall>p \<in> set before. HardwareAddr_bytes (PeerHW p) \<noteq> HardwareAddr_bytes dst"
    and "HardwareAddr_bytes (PeerHW peer) = HardwareAddr_bytes dst"
  shows "SendTo env ptp dst msg
         = (Transport env msg (PeerAddr peer), ptp\<lparr>sendlog := sendlog ptp @ [(msg, PeerAddr peer)]\<rparr>)"
  using SendTo_loop_first_match [OF assms(2,3)] assms(1)
  by (simp add: SendTo_def SendMessage_def)

theorem SendTo_ignores_Endpoint_witness:
  "NetworkPeers example_handshaked = [] @ hd (NetworkPeers example_handshaked) # []
   \<and> list_all (\<lambda>p. HardwareAddr_bytes (PeerHW p) \<noteq> HardwareAddr_bytes (Some [6, 1, 2, 3, 4, 5])) []
   \<and> HardwareAddr_bytes (PeerHW (hd (NetworkPeers example_handshaked)))
       = HardwareAddr_bytes (Some [6, 1, 2, 3, 4, 5])
   \<and> Endpoint (hd (NetworkPeers example_handshaked)) = []
   \<and> SendTo example_env example_handshaked (Some [6, 1, 2, 3, 4, 5]) example_frame
       = (Transport example_env example_frame (PeerAddr (hd (NetworkPeers example_handshaked))),
          example_handshaked\<lparr>sendlog := sendlog example_handshaked
            @ [(example_frame, PeerAddr (hd (NetworkPeers example_handshaked)))]\<rparr>)"
proof -
  have a: "NetworkPeers example_handshaked = [] @ hd (NetworkPeers example_handshaked) # []"
    by (simp add: example_handshaked_eq)
  have b: "\<forall>p \<in> set []. HardwareAddr_bytes (PeerHW p) \<noteq> HardwareAddr_bytes (Some [6, 1, 2, 3, 4, 5])"
    by simp
  have c: "HardwareAddr_bytes (PeerHW (hd (NetworkPeers example_handshaked)))
       = HardwareAddr_bytes (Some [6, 1, 2, 3, 4, 5])"
    by (simp add: example_handshaked_eq NetworkPeer_zero_def)
  have d: "Endpoint (hd (NetworkPeers example_handshaked)) = []"
    by (simp add: example_handshaked_eq NetworkPeer_zero_def)
  show ?thesis
    using a c d SendTo_ignores_Endpoint [OF a b c, of example_env example_frame] by simp
qed

text \<open>
  C6 as stated fails: the record of \<open>peer-b\<close> has an empty \<open>Endpoint\<close>, and a frame
  for its MAC is handed to the socket, for the address the introduction came from.
\<close>

theorem SendTo_empty_Endpoint_counterexample:
  "Endpoint (hd (NetworkPeers example_handshaked)) = []
   \<and> PeerHW (hd (NetworkPeers example_handshaked)) = Some [6, 1, 2, 3, 4, 5]
   \<and> SendTo example_env example_handshaked (Some [6, 1, 2, 3, 4, 5]) example_frame
       = ((5, None), example_handshaked\<lparr>sendlog := [(example_frame, Some ''8.8.4.4:4000'')]\<rparr>)"
  by (simp add: example_handshaked_eq NetworkPeer_zero_def SendTo_def SendMessage_def
      example_env_def example_frame_def example_ptp_def)

section \<open>Properties of GenerateMAC\<close>

lemma hexDigit_value:
  assumes "n < 16"
  shows "(is_digit (hexDigit ! n) \<and> of_char (hexDigit ! n) - of_char CHR ''0'' = n)
    \<or> (\<not> is_digit (hexDigit ! n) \<and> is_lower_hex (hexDigit ! n)
        \<and> of_char (hexDigit ! n) - of_char CHR ''a'' + 10 = n)"
proof -
  have "\<forall>k \<in> set [0..<16].
      (is_digit (hexDigit ! k) \<and> of_char (hexDigit ! k) - of_char CHR ''0'' = k)
      \<or> (\<not> is_digit (hexDigit ! k) \<and> is_lower_hex (hexDigit ! k)
          \<and> of_char (hexDigit ! k) - of_char CHR ''a'' + 10 = k)"
    by (simp add: upt_rec hexDigit_def is_digit_def is_lower_hex_def)
  moreover have "n \<in> set [0..<16]" using assms by simp
  ultimately show ?thesis by blast
qed

lemma xtoi_loop_hexDigit:
  assumes "n < 16"
  shows "xtoi_loop (hexDigit ! n # cs) m i
         = (if m * 16 + n \<ge> big then (0, i, True) else xtoi_loop cs (m * 16 + n) (Suc i))"
  using hexDigit_value [OF assms]
proof (elim disjE conjE)
  assume "is_digit (hexDigit ! n)" and "of_char (hexDigit ! n) - of_char CHR ''0'' = n"
  then show ?thesis by (simp add: Let_def)
next
  assume "\<not> is_digit (hexDigit ! n)" and "is_lower_hex (hexDigit ! n)"
    and "of_char (hexDigit ! n) - of_char CHR ''a'' + 10 = n"
  then show ?thesis by (simp add: Let_def add.assoc)
qed

lemma xtoi_two_hexDigits:
  assumes "h < 16" and "l < 16"
  shows "xtoi [hexDigit ! h, hexDigit ! l] = (h * 16 + l, 2, True)"
proof -
  have "h * 16 + l < big" using assms by (simp add: big_def)
  moreover have "h < big" using assms by (simp add: big_def)
  ultimately show ?thesis
    by (simp add: xtoi_def xtoi_loop_hexDigit [OF assms(1)] xtoi_loop_hexDigit [OF assms(2)]
        del: xtoi_loop.simps(2))
qed

lemma byte_of_nibbles:
  "of_nat (unat (drop_bit 4 (b::byte)) * 16 + unat (b AND 0xF)) = b"
proof -
  have "unat (drop_bit 4 b) * 16 + unat (b AND 0xF) = unat b"
    by (simp add: hi_nibble lo_nibble)
  then show ?thesis by simp
qed

lemma xtoi2_fmt_02x:
  "xtoi2 (hexDigit ! unat (drop_bit 4 (b::byte)) # hexDigit ! unat (b AND 0xF) # rest) e
   = (if rest \<noteq> [] \<and> hd rest \<noteq> e then (0, False) else (b, True))"
proof -
  have x: "xtoi [hexDigit ! unat (drop_bit 4 b), hexDigit ! unat (b AND 0xF)]
           = (unat (drop_bit 4 b) * 16 + unat (b AND 0xF), 2, True)"
    by (rule xtoi_two_hexDigits [OF hi_nibble_less lo_nibble_less])
  show ?thesis
    by (cases rest) (simp_all add: xtoi2_def x byte_of_nibbles del: of_nat_add of_nat_mult)
qed

lemma ParseMAC_generated:
  "ParseMAC (''06:'' @ fmt_02x b1 @ '':'' @ fmt_02x b2 @ '':'' @ fmt_02x b3
             @ '':'' @ fmt_02x b4 @ '':'' @ fmt_02x b5)
   = Some [0x06, b1, b2, b3, b4, b5]"
proof -
  have six: "xtoi2 (CHR ''0'' # CHR ''6'' # rest) e
      = (if rest \<noteq> [] \<and> hd rest \<noteq> e then (0, False) else (6, True))" for rest e
    by (cases rest)
      (simp_all add: xtoi2_def xtoi_def is_digit_def is_lower_hex_def is_upper_hex_def big_def)
  show ?thesis
    by (simp add: ParseMAC_def fmt_02x_def upt_rec xtoi2_fmt_02x six)
qed

lemma HardwareAddr_String_generated:
  "HardwareAddr_String (Some [0x06, b1, b2, b3, b4, b5])
   = ''06:'' @ fmt_02x b1 @ '':'' @ fmt_02x b2 @ '':'' @ fmt_02x b3
     @ '':'' @ fmt_02x b4 @ '':'' @ fmt_02x b5"
proof -
  have "drop_bit 4 (6::byte) = 0" and "(6::byte) AND 0xF = 6"
    by simp_all
  then show ?thesis
    by (simp add: HardwareAddr_String_def fmt_02x_def hexDigit_def)
qed

text \<open>
  C8: whatever six bytes the random source gives, \<open>GenerateMAC\<close> returns a MAC text
  and the hardware address it parses to; the first octet is 0x06, so its
  locally-administered bit (0x02) is set, five more octets follow, and the text is the
  colon-separated lower-case form that \<open>HardwareAddr.String\<close> prints for that address.
\<close>

theorem GenerateMAC_valid:
  "GenerateMAC (RandBytes b0 b1 b2 b3 b4 b5)
     = (''06:'' @ fmt_02x b1 @ '':'' @ fmt_02x b2 @ '':'' @ fmt_02x b3
          @ '':'' @ fmt_02x b4 @ '':'' @ fmt_02x b5,
        Some [0x06, b1, b2, b3, b4, b5])
   \<and> ParseMAC (fst (GenerateMAC (RandBytes b0 b1 b2 b3 b4 b5))) = Some [0x06, b1, b2, b3, b4, b5]
   \<and> HardwareAddr_String (snd (GenerateMAC (RandBytes b0 b1 b2 b3 b4 b5)))
       = fst (GenerateMAC (RandBytes b0 b1 b2 b3 b4 b5))
   \<and> (case snd (GenerateMAC (RandBytes b0 b1 b2 b3 b4 b5)) of
         Some (first_byte # rest) \<Rightarrow>
           first_byte AND 0x02 \<noteq> 0 \<and> first_byte = 0x06 \<and> length rest = 5
       | _ \<Rightarrow> False)"
proof -
  have g: "GenerateMAC (RandBytes b0 b1 b2 b3 b4 b5)
     = (''06:'' @ fmt_02x b1 @ '':'' @ fmt_02x b2 @ '':'' @ fmt_02x b3
          @ '':'' @ fmt_02x b4 @ '':'' @ fmt_02x b5,
        Some [0x06, b1, b2, b3, b4, b5])"
    unfolding GenerateMAC_def by (simp add: ParseMAC_generated Let_def del: append.simps)
  have l: "(0x06 :: byte) AND 0x02 \<noteq> 0" by simp
  show ?thesis
    unfolding g using l
    by (simp add: ParseMAC_generated HardwareAddr_String_generated del: append.simps)
qed

section \<open>Properties of PurgePeers\<close>

text \<open>
  C3 does not hold of the code: the indices to remove are collected first and then
  removed in ascending order without accounting for the shift that each removal causes.
  With the records \<open>peer-b\<close>, \<open>peer-c\<close>, \<open>peer-d\<close> and only \<open>peer-d\<close> in the
  rendezvous view, the purge leaves \<open>peer-c\<close>, which is absent from the view, and
  removes \<open>peer-d\<close>, which is present. With only \<open>peer-c\<close> in the view, the second
  removal slices out of range and the program panics.
\<close>

theorem PurgePeers_shifted_indices:
  "map ID (NetworkPeers example_three) = [''peer-b'', ''peer-c'', ''peer-d'']
   \<and> map dht_peer_ID (dht_Peers example_three) = [''peer-d'']
   \<and> PurgePeers example_three [] = Inr (example_three\<lparr>NetworkPeers := [example_peer ''peer-c'']\<rparr>)
   \<and> PurgePeers (example_three\<lparr>dht_Peers := [\<lparr>dht_peer_ID = ''peer-c'', Ips = []\<rparr>]\<rparr>) []
       = Inl SliceBoundsOutOfRange"
  by (simp add: example_three_def PurgePeers_def example_peer_def NetworkPeer_zero_def example_ptp_def)

section \<open>Properties of SyncPeers\<close>

text \<open>
  What the merge does: it appends, in the order of the view, the resolved address of
  every entry that is neither empty nor \<open>0\<close> and is not the text of an address in
  \<open>stale\<close>, the list the record held when the iteration began.
\<close>

lemma SyncPeers_ipFound_eq:
  "SyncPeers_ipFound kips ip ipFound \<longleftrightarrow> ipFound \<or> ip \<in> UDPAddr_String ` set kips"
  by (induction kips arbitrary: ipFound) auto

lemma SyncPeers_merge_eq:
  "SyncPeers_merge env stale ips live
   = live @ map (ResolveUDPAddr env)
       (filter (\<lambda>ip. ip \<noteq> [] \<and> ip \<noteq> ''0'' \<and> ip \<notin> UDPAddr_String ` set stale) ips)"
  by (induction ips arbitrary: live) (simp_all add: SyncPeers_ipFound_eq)

text \<open>
  C9 does not hold of the code in its second half: entries are compared with the list
  held by the copy of the record, which does not see what the same merge has appended.
  The record knows 8.8.4.4:4000; the view lists the empty string, \<open>0\<close>, 9.9.9.9:4000
  twice and 8.8.4.4:4000. The empty string, \<open>0\<close> and the known address are skipped,
  and 9.9.9.9:4000 is appended twice, the second time although the list holds it.
\<close>

theorem SyncPeers_merge_duplicates:
  "SyncPeers example_env example_known []
   = Inr (0, example_known\<lparr>NetworkPeers :=
        [(example_peer ''peer-b'')\<lparr>Endpoint := ''8.8.4.4:4000'',
           KnownIPs := [Some ''8.8.4.4:4000'', Some ''9.9.9.9:4000'', Some ''9.9.9.9:4000'']\<rparr>]\<rparr>)"
  by (simp add: SyncPeers_def example_known_def example_ptp_def example_peer_def NetworkPeer_zero_def
      SyncPeers_peer_def SyncPeers_merge_eq UDPAddr_String_def example_env_def)

text \<open>
  The choice of an endpoint: probing never changes the known addresses, and whenever the
  choice returns for a record that had no endpoint and has a known address, the endpoint
  is the first known address, whatever the probes found.
\<close>

lemma SyncPeers_probe_kips_KnownIPs:
  "SyncPeers_probe_kips env network kips (live, count) = Inr (live', count')
   \<Longrightarrow> KnownIPs live' = KnownIPs live"
  by (induction kips arbitrary: live count) (auto split: option.splits if_splits)

lemma SyncPeers_probe_addrs_KnownIPs:
  "SyncPeers_probe_addrs env addrs (live, count) = Inr (live', count')
   \<Longrightarrow> KnownIPs live' = KnownIPs live"
proof (induction addrs arbitrary: live count)
  case Nil
  then show ?case by simp
next
  case (Cons network addrs)
  from Cons.prems obtain l c where
    k: "SyncPeers_probe_kips env network (KnownIPs live) (live, count) = Inr (l, c)"
    and r: "SyncPeers_probe_addrs env addrs (l, c) = Inr (live', count')"
    by (auto split: sum.splits)
  show ?case
    using Cons.IH [OF r] SyncPeers_probe_kips_KnownIPs [OF k] by simp
qed

lemma SyncPeers_probe_interfaces_KnownIPs:
  "SyncPeers_probe_interfaces env deviceName infs (live, count) = Inr (live', count')
   \<Longrightarrow> KnownIPs live' = KnownIPs live"
proof (induction infs arbitrary: live count)
  case Nil
  then show ?case by simp
next
  case (Cons i infs)
  show ?case
  proof (cases "Name i = deviceName")
    case True
    with Cons show ?thesis by simp
  next
    case False
    with Cons.prems obtain l c where
      k: "SyncPeers_probe_addrs env (Addrs i) (live, count) = Inr (l, c)"
      and r: "SyncPeers_probe_interfaces env deviceName infs (l, c) = Inr (live', count')"
      by (auto split: sum.splits)
    show ?thesis
      using Cons.IH [OF r] SyncPeers_probe_addrs_KnownIPs [OF k] by simp
  qed
qed

lemma SyncPeers_endpoint_is_first_known:
  assumes "SyncPeers_endpoint env deviceName peer (live, count) = Inr (live', count')"
    and "Endpoint peer = []"
    and "KnownIPs live \<noteq> []"
  shows "Endpoint live' = UDPAddr_String (hd (KnownIPs live)) \<and> KnownIPs live' = KnownIPs live"
proof -
  from assms(1) obtain l c where
    p: "SyncPeers_probe_interfaces env deviceName
          (case Interfaces env of None \<Rightarrow> [] | Some infs \<Rightarrow> infs) (live, count) = Inr (l, c)"
    by (auto simp: SyncPeers_endpoint_def Let_def split: sum.splits)
  have k: "KnownIPs l = KnownIPs live"
    using SyncPeers_probe_interfaces_KnownIPs [OF p] .
  obtain first rest where f: "KnownIPs live = first # rest"
    using assms(3) by (cases "KnownIPs live") auto
  show ?thesis
    using assms(1,2) p k f
    by (auto simp: SyncPeers_endpoint_def Let_def split: sum.splits)
qed

text \<open>
  C4 does not hold of the code in its first half: the test that guards the fallback
  reads \<open>Endpoint\<close> from the copy of the record, where it is still empty, so the
  fallback always runs. \<open>peer-b\<close> is known at the public 8.8.4.4:4000 and at
  192.168.1.7:4000, which lies in the network of \<open>eth0\<close> and answers the probe. The
  LAN address is chosen first and counted, and then overwritten by the first known
  address, counted again.
\<close>

theorem SyncPeers_lan_candidate_overwritten:
  "Contains example_env ''192.168.1.5/24'' ''192.168.1.7:4000''
   \<and> TestConnection example_env (Some ''192.168.1.7:4000'')
   \<and> SyncPeers example_env example_two_candidates []
       = Inr (2, example_two_candidates\<lparr>NetworkPeers :=
            [(example_peer ''peer-b'')\<lparr>KnownIPs := [Some ''8.8.4.4:4000'', Some ''192.168.1.7:4000''],
               Endpoint := ''8.8.4.4:4000''\<rparr>]\<rparr>)"
  by (simp add: SyncPeers_def example_two_candidates_def example_ptp_def example_peer_def
      NetworkPeer_zero_def SyncPeers_peer_def SyncPeers_merge_eq SyncPeers_endpoint_def
      TestConnection_def UDPAddr_String_def example_env_def)

end
